theory Spec2Isabelle
  imports
    Complex_Main
    "HOL-Library.Sublist"
    "HOL-Library.Product_Lexorder"
    "HOL-Library.Char_ord"
    "HOL-Library.List_Lexorder"
begin

section \<open>Data model\<close>

text \<open>
  The program is a single script, \<^verbatim>\<open>src/main.py\<close>: a form that inserts one expense into
  the table \<^verbatim>\<open>Expenses\<close> of a relational store, and an analysis view over the table
  loaded from that store.

  A calendar date, as \<^verbatim>\<open>datetime.date\<close> and the \<^verbatim>\<open>.dt.year\<close> / \<^verbatim>\<open>.dt.month\<close>
  accessors of the loaded column see it.
\<close>

record pydate =
  dt_year :: int
  dt_month :: nat
  dt_day :: nat

text \<open>
  One persisted record: the four columns that the insert statement writes and the select
  statement reads. The form yields the amount as a Python float and the loaded column is
  float64; a finite float64 value is kept as the rational number it denotes. The model does
  no arithmetic on amounts: every sum is the table library's, see \<open>float_sum\<close> below.
\<close>

record expense =
  date :: pydate
  amount :: rat
  category :: string
  description :: string

text \<open>
  One row of the loaded table \<^verbatim>\<open>df\<close>: the four columns plus the derived columns
  \<^verbatim>\<open>year\<close> and \<^verbatim>\<open>month\<close> (lines 38-39). A table is the list of its rows in index order;
  equal rows may occur more than once.
\<close>

record row = expense +
  year :: int
  month :: nat

type_synonym table = "row list"

text \<open>The dictionary \<^verbatim>\<open>months\<close> of lines 103-104, in insertion order.\<close>

definition months :: "(nat \<times> string) list" where
  "months =
    [(1, ''January''), (2, ''February''), (3, ''March''), (4, ''April''),
     (5, ''May''), (6, ''June''), (7, ''July''), (8, ''August''),
     (9, ''September''), (10, ''October''), (11, ''November''), (12, ''December'')]"

section \<open>Filters (lines 111-116)\<close>

text \<open>
  Line 113: \<^verbatim>\<open>df[df["year"].isin(selected_year)] if selected_year else df\<close>.
  A boolean mask keeps the rows whose mask entry is true, in index order; a list is
  truthy when it is not empty.
\<close>

definition filterByYears :: "table \<Rightarrow> int list \<Rightarrow> table" where
  "filterByYears t selected_year =
    (if selected_year \<noteq> [] then filter (\<lambda>r. year r \<in> set selected_year) t else t)"

text \<open>
  The comprehension \<^verbatim>\<open>[k for k, v in months.items() if v in selected_month]\<close> of line 114:
  the month widget yields display names, which are turned back into month numbers.
\<close>

definition month_numbers :: "string list \<Rightarrow> nat list" where
  "month_numbers selected_month =
    map fst (filter (\<lambda>(k, v). v \<in> set selected_month) months)"

text \<open>Line 114, with the same pass-through when nothing is selected.\<close>

definition filterByMonths :: "table \<Rightarrow> string list \<Rightarrow> table" where
  "filterByMonths t selected_month =
    (if selected_month \<noteq> []
     then filter (\<lambda>r. month r \<in> set (month_numbers selected_month)) t
     else t)"

text \<open>Lines 115-116: the category filter is skipped for the sentinel \<^verbatim>\<open>"All"\<close>.\<close>

definition filterByCategory :: "table \<Rightarrow> string \<Rightarrow> table" where
  "filterByCategory t selected_category =
    (if selected_category \<noteq> ''All''
     then filter (\<lambda>r. category r = selected_category) t
     else t)"

text \<open>
  The variables \<^verbatim>\<open>df\<close> and \<^verbatim>\<open>filtered_df\<close> of the analysis block. The script assigns
  \<^verbatim>\<open>filtered_df\<close> four times (lines 111, 113, 114, 116) and never assigns \<^verbatim>\<open>df\<close>
  there; the first assignment is overwritten by the second.
\<close>

record analysis_vars =
  df :: table
  filtered_df :: table

definition apply_filters ::
  "int list \<Rightarrow> string list \<Rightarrow> string \<Rightarrow> analysis_vars \<Rightarrow> analysis_vars" where
  "apply_filters selected_year selected_month selected_category v =
    (let v1 = v\<lparr>filtered_df := filter (\<lambda>r. year r \<in> set selected_year) (df v)\<rparr>;
         v2 = v1\<lparr>filtered_df := filterByYears (df v1) selected_year\<rparr>;
         v3 = v2\<lparr>filtered_df := filterByMonths (filtered_df v2) selected_month\<rparr>;
         v4 = v3\<lparr>filtered_df := filterByCategory (filtered_df v3) selected_category\<rparr>
     in v4)"

section \<open>Aggregations (lines 120-143)\<close>

text \<open>
  The two summations of the table library over float64 values, in the order of the rows
  they receive: \<^verbatim>\<open>Series.sum()\<close> and the sum of one group of \<^verbatim>\<open>groupby(...).sum()\<close>. They
  round, and in which order they add is the library's own affair, so both are parameters
  of the model and nothing is assumed of them.
\<close>

record float_sum =
  series_sum :: "rat list \<Rightarrow> rat"
  group_sum :: "rat list \<Rightarrow> rat"

text \<open>Line 120: \<^verbatim>\<open>filtered_df['amount'].sum()\<close>.\<close>

definition totalSpending :: "float_sum \<Rightarrow> table \<Rightarrow> rat" where
  "totalSpending fs t = series_sum fs (map amount t)"

text \<open>
  \<^verbatim>\<open>groupby(keys)["amount"].sum().reset_index()\<close>: one output row per distinct key, the
  keys in ascending order, each with the library's sum of \<^verbatim>\<open>amount\<close> over the rows of
  that key, taken in table order.
\<close>

definition groupby_sum ::
  "float_sum \<Rightarrow> (row \<Rightarrow> 'k::linorder) \<Rightarrow> table \<Rightarrow> ('k \<times> rat) list" where
  "groupby_sum fs key t =
    map (\<lambda>k. (k, group_sum fs (map amount (filter (\<lambda>r. key r = k) t))))
      (sort (remdups (map key t)))"

text \<open>
  \<^verbatim>\<open>Series.map(months)\<close>: a number that is not a key of the dictionary is mapped to a
  missing value, here \<open>None\<close>.
\<close>

definition month_name :: "nat \<Rightarrow> string option" where
  "month_name m = map_of months m"

text \<open>
  Lines 124-126: a first value of \<^verbatim>\<open>line_data\<close>, grouped by year, month and category and
  restricted to the selected years. Line 133 assigns \<^verbatim>\<open>line_data\<close> again, so this value
  is never displayed.
\<close>

definition line_data_first ::
  "float_sum \<Rightarrow> table \<Rightarrow> int list \<Rightarrow> (int \<times> string option \<times> string \<times> rat) list" where
  "line_data_first fs t selected_year =
    map (\<lambda>((y, m, c), a). (y, month_name m, c, a))
      (filter (\<lambda>((y, m, c), a). y \<in> set selected_year)
        (groupby_sum fs (\<lambda>r. (year r, month r, category r)) t))"

text \<open>
  Lines 133-134: the value of \<^verbatim>\<open>line_data\<close> that the chart of line 136 receives. It is
  computed from \<^verbatim>\<open>df\<close> itself; \<^verbatim>\<open>selected_year\<close> does not occur in it.
\<close>

definition line_data ::
  "float_sum \<Rightarrow> table \<Rightarrow> int list \<Rightarrow> (int \<times> string option \<times> rat) list" where
  "line_data fs t selected_year =
    map (\<lambda>((y, m), a). (y, month_name m, a))
      (groupby_sum fs (\<lambda>r. (year r, month r)) t)"

text \<open>Line 143: the category breakdown of the filtered rows.\<close>

definition pie_data :: "float_sum \<Rightarrow> table \<Rightarrow> (string \<times> rat) list" where
  "pie_data fs t = groupby_sum fs category t"

section \<open>The analysis view (lines 95-150)\<close>

text \<open>
  What the script puts on the page, in order. A heading is kept by its visible text, the
  metric by the number that line 120 formats, a chart by the data frame it draws, the
  year and month controls by their options and defaults, the category control by its
  options and the index of the default.
\<close>

datatype ui_element =
    Markdown string
  | Warning string
  | Success string
  | MultiselectYear "int list" "int list"
  | MultiselectMonth "string list" "string list"
  | Selectbox "string list" nat
  | Metric rat
  | LineChart "(int \<times> string option \<times> rat) list"
  | PieChart "(string \<times> rat) list"
  | Dataframe "expense list"

text \<open>\<^verbatim>\<open>Series.unique()\<close>: the distinct values in order of first appearance.\<close>

definition unique :: "'a list \<Rightarrow> 'a list" where
  "unique xs = rev (remdups (rev xs))"

text \<open>The column selection \<^verbatim>\<open>filtered_df[["date", "amount", "category", "description"]]\<close>.\<close>

definition columns :: "row \<Rightarrow> expense" where
  "columns r =
    \<lparr>date = date r, amount = amount r, category = category r, description = description r\<rparr>"

text \<open>
  The block \<^verbatim>\<open>with tab2:\<close>. The three selections are what the controls of lines 106-108
  return; the controls exist only in the branch for a table with rows.
  \<^verbatim>\<open>filtered_df\<close> has no value before line 111; the empty table stands for that.
\<close>

definition analysis_tab ::
  "float_sum \<Rightarrow> table \<Rightarrow> int list \<Rightarrow> string list \<Rightarrow> string \<Rightarrow> ui_element list" where
  "analysis_tab fs t selected_year selected_month selected_category =
    Markdown ''Analysis'' #
    (if t = [] then [Warning ''No data available. Please add expenses first.'']
     else
       (let years = rev (sort (remdups (map year t)));
            v = apply_filters selected_year selected_month selected_category
                  \<lparr>df = t, filtered_df = []\<rparr>
        in [MultiselectYear years [Max (set (map year t))],
            MultiselectMonth (map snd months) (map snd months),
            Selectbox (''All'' # unique (map category t)) 0,
            Markdown ''Total Spending'',
            Metric (totalSpending fs (filtered_df v)),
            Markdown ''Monthly Spending Trend'',
            LineChart (line_data fs (df v) selected_year),
            Markdown ''Spending by Category'',
            PieChart (pie_data fs (filtered_df v)),
            Markdown ''Expenses Details'',
            Dataframe (map columns (filtered_df v))]))"

section \<open>The store, the cache and the session state\<close>

text \<open>
  Exceptions that reach the script: an error of the database driver (\<^verbatim>\<open>pyodbc.Error\<close>
  and its subclasses), the error that the table reader raises when the query fails, or an
  error of the page library.
\<close>

datatype exn = PyodbcError string | DatabaseError string | StreamlitError string

type_synonym connection = nat

text \<open>
  The database driver and the page library are outside the program. Their answers are
  parameters of the model: the outcome of the \<open>n\<close>-th call of \<^verbatim>\<open>pyodbc.connect\<close>, whether
  the insert statement, the commit and the select fail on a given connection, whether
  closing the connection that has just committed fails (line 84), and whether showing the
  success message fails (line 86).
\<close>

record driver =
  connect :: "nat \<Rightarrow> exn + connection"
  execute :: "connection \<Rightarrow> expense \<Rightarrow> exn option"
  commit :: "connection \<Rightarrow> exn option"
  read_sql :: "connection \<Rightarrow> exn option"
  close :: "connection \<Rightarrow> exn option"
  st_success :: "exn option"

text \<open>The two messages that \<^verbatim>\<open>get_connection\<close> prints (lines 26 and 29).\<close>

datatype log_line = ConnectionSuccessful | ConnectionFailed exn

datatype ss_value = DateV pydate | NumV rat | StrV string

text \<open>
  Everything the script reads and writes outside its local variables: the rows of the table
  \<^verbatim>\<open>Expenses\<close>, the value that \<^verbatim>\<open>st.cache_data\<close> holds for \<^verbatim>\<open>load_data\<close> (\<open>None\<close> when
  there is none), the dictionary \<^verbatim>\<open>st.session_state\<close>, the printed lines, and the number
  of calls of \<^verbatim>\<open>pyodbc.connect\<close> made so far.
\<close>

record world =
  store :: "expense list"
  cache :: "table option"
  session_state :: "(string \<times> ss_value) list"
  console :: "log_line list"
  connect_calls :: nat

text \<open>
  \<^verbatim>\<open>get_connection\<close> (lines 20-30): one call of \<^verbatim>\<open>pyodbc.connect\<close>. A \<^verbatim>\<open>pyodbc.Error\<close> is
  printed and raised again by the bare \<^verbatim>\<open>raise\<close>; any other exception is not caught.
\<close>

definition get_connection :: "driver \<Rightarrow> world \<Rightarrow> (exn + connection) \<times> world" where
  "get_connection drv w =
    (let w1 = w\<lparr>connect_calls := Suc (connect_calls w)\<rparr> in
     case connect drv (connect_calls w) of
       Inr conn \<Rightarrow> (Inr conn, w1\<lparr>console := console w1 @ [ConnectionSuccessful]\<rparr>)
     | Inl (PyodbcError msg) \<Rightarrow>
         (Inl (PyodbcError msg), w1\<lparr>console := console w1 @ [ConnectionFailed (PyodbcError msg)]\<rparr>)
     | Inl e \<Rightarrow> (Inl e, w1))"

text \<open>Lines 37-39: the derived columns.\<close>

definition derive :: "expense \<Rightarrow> row" where
  "derive e =
    \<lparr>date = date e, amount = amount e, category = category e, description = description e,
     year = dt_year (date e), month = dt_month (date e)\<rparr>"

text \<open>
  \<^verbatim>\<open>load_data\<close> (lines 32-41) under \<^verbatim>\<open>@st.cache_data\<close>: a cached value is returned without
  running the body; otherwise the body runs and its result is cached. An exception leaves
  the cache as it was.
\<close>

definition load_data :: "driver \<Rightarrow> world \<Rightarrow> (exn + table) \<times> world" where
  "load_data drv w =
    (case cache w of
       Some t \<Rightarrow> (Inr t, w)
     | None \<Rightarrow>
        (case get_connection drv w of
           (Inl e, w1) \<Rightarrow> (Inl e, w1)
         | (Inr conn, w1) \<Rightarrow>
            (case read_sql drv conn of
               Some e \<Rightarrow> (Inl e, w1)
             | None \<Rightarrow>
                (let t = map derive (store w1) in (Inr t, w1\<lparr>cache := Some t\<rparr>)))))"

text \<open>
  \<^verbatim>\<open>reset_form\<close> (lines 43-48): each of the five keys is deleted when present. The call
  of \<^verbatim>\<open>st.rerun()\<close> that follows ends the run of the script; the caller below returns
  at that point.
\<close>

definition del_key :: "string \<Rightarrow> (string \<times> ss_value) list \<Rightarrow> (string \<times> ss_value) list" where
  "del_key k ss = (if k \<in> fst ` set ss then filter (\<lambda>(k', v). k' \<noteq> k) ss else ss)"

definition reset_form :: "(string \<times> ss_value) list \<Rightarrow> (string \<times> ss_value) list" where
  "reset_form ss =
    fold del_key [''selected_date'', ''value'', ''spending_type'', ''category'', ''comments''] ss"

text \<open>
  The block \<^verbatim>\<open>if submitted:\<close> (lines 74-89) for the submitted field values. Each call that
  can raise is a branch, and an exception ends the block at once: connecting, the insert
  statement, the commit, closing the connection, showing the success message. The
  connection is opened with the driver's default of no autocommit, so the row reaches the
  table when \<^verbatim>\<open>commit\<close> returns, before the connection is closed. The cache is cleared
  and the form reset only after the success message (lines 87-89). A normal end is the
  rerun requested by \<^verbatim>\<open>reset_form\<close>.
\<close>

definition expenses_submit :: "driver \<Rightarrow> world \<Rightarrow> expense \<Rightarrow> (exn + ui_element list) \<times> world" where
  "expenses_submit drv w e =
    (case get_connection drv w of
       (Inl err, w1) \<Rightarrow> (Inl err, w1)
     | (Inr conn, w1) \<Rightarrow>
        (case execute drv conn e of
           Some err \<Rightarrow> (Inl err, w1)
         | None \<Rightarrow>
            (case commit drv conn of
               Some err \<Rightarrow> (Inl err, w1)
             | None \<Rightarrow>
                (let w2 = w1\<lparr>store := store w1 @ [e]\<rparr> in
                 case close drv conn of
                   Some err \<Rightarrow> (Inl err, w2)
                 | None \<Rightarrow>
                    (case st_success drv of
                       Some err \<Rightarrow> (Inl err, w2)
                     | None \<Rightarrow>
                        (let w3 = w2\<lparr>cache := None\<rparr>;
                             w4 = w3\<lparr>session_state := reset_form (session_state w3)\<rparr>
                         in (Inr [Success ''Expense added succesfully''], w4)))))))"

section \<open>Example inputs\<close>

text \<open>Three rows: one of January 2023, one of January 2024, and the electricity bill of 5 March 2024.\<close>

definition rent_2023 :: row where
  "rent_2023 =
    \<lparr>date = \<lparr>dt_year = 2023, dt_month = 1, dt_day = 10\<rparr>, amount = 10,
     category = ''Home'', description = ''rent'', year = 2023, month = 1\<rparr>"

definition gas_2024 :: row where
  "gas_2024 =
    \<lparr>date = \<lparr>dt_year = 2024, dt_month = 1, dt_day = 12\<rparr>, amount = 20,
     category = ''Bills'', description = ''gas'', year = 2024, month = 1\<rparr>"

definition electric_bill :: expense where
  "electric_bill =
    \<lparr>date = \<lparr>dt_year = 2024, dt_month = 3, dt_day = 5\<rparr>, amount = 85 / 2,
     category = ''Bills'', description = ''electric''\<rparr>"

definition example_table :: table where
  "example_table = [rent_2023, gas_2024, derive electric_bill]"

text \<open>The rows of a loaded table whose four stored columns are those of a given record.\<close>

definition matching :: "expense \<Rightarrow> table \<Rightarrow> table" where
  "matching e t = filter (\<lambda>r. columns r = e) t"

text \<open>
  Four drivers: one on which every call succeeds, one whose first connection attempt is
  refused while a second one would be accepted, one whose commit fails, and one on which
  closing the connection fails after the commit.
\<close>

definition ok_driver :: driver where
  "ok_driver =
    \<lparr>connect = (\<lambda>n. Inr n), execute = (\<lambda>conn e. None), commit = (\<lambda>conn. None),
     read_sql = (\<lambda>conn. None), close = (\<lambda>conn. None), st_success = None\<rparr>"

definition unreachable_driver :: driver where
  "unreachable_driver =
    \<lparr>connect = (\<lambda>n. if n = 0 then Inl (PyodbcError ''08001'') else Inr n),
     execute = (\<lambda>conn e. None), commit = (\<lambda>conn. None), read_sql = (\<lambda>conn. None),
     close = (\<lambda>conn. None), st_success = None\<rparr>"

definition failing_commit_driver :: driver where
  "failing_commit_driver =
    \<lparr>connect = (\<lambda>n. Inr n), execute = (\<lambda>conn e. None),
     commit = (\<lambda>conn. Some (PyodbcError ''40001'')), read_sql = (\<lambda>conn. None),
     close = (\<lambda>conn. None), st_success = None\<rparr>"

definition failing_close_driver :: driver where
  "failing_close_driver =
    \<lparr>connect = (\<lambda>n. Inr n), execute = (\<lambda>conn e. None), commit = (\<lambda>conn. None),
     read_sql = (\<lambda>conn. None), close = (\<lambda>conn. Some (PyodbcError ''08S01'')),
     st_success = None\<rparr>"

definition filled_form :: "(string \<times> ss_value) list" where
  "filled_form =
    [(''selected_date'', DateV \<lparr>dt_year = 2024, dt_month = 3, dt_day = 5\<rparr>),
     (''value'', NumV (85 / 2)), (''spending_type'', StrV ''Recurring''),
     (''category'', StrV ''Bills''), (''comments'', StrV ''electric'')]"

text \<open>
  Three states: nothing stored and nothing cached; nothing stored and the empty table
  cached; the electricity bill already stored and cached.
\<close>

definition fresh_world :: world where
  "fresh_world =
    \<lparr>store = [], cache = None, session_state = [], console = [], connect_calls = 0\<rparr>"

definition empty_world :: world where
  "empty_world =
    \<lparr>store = [], cache = Some [], session_state = filled_form, console = [],
     connect_calls = 0\<rparr>"

definition dup_world :: world where
  "dup_world =
    \<lparr>store = [electric_bill], cache = Some [derive electric_bill],
     session_state = filled_form, console = [], connect_calls = 0\<rparr>"

section \<open>Auxiliary facts\<close>

lemma distinct_months: "distinct (map fst months)"
  by (simp add: months_def)

lemma month_numbers_iff:
  "m \<in> set (month_numbers sel) \<longleftrightarrow> (\<exists>name\<in>set sel. month_name m = Some name)"
  using distinct_months by (force simp: month_numbers_def month_name_def)

lemma apply_filters_filtered_df:
  "filtered_df (apply_filters ys ms c v) =
    filterByCategory (filterByMonths (filterByYears (df v) ys) ms) c"
  by (simp add: apply_filters_def)

lemma columns_derive: "columns (derive e) = e"
  by (simp add: columns_def derive_def)

lemma matching_derive: "matching e (map derive es) = map derive (filter (\<lambda>x. x = e) es)"
  by (induction es) (simp_all add: matching_def columns_derive)

lemma get_connection_ok:
  "connect drv (connect_calls w) = Inr conn \<Longrightarrow>
   get_connection drv w =
     (Inr conn, w\<lparr>connect_calls := Suc (connect_calls w), console := console w @ [ConnectionSuccessful]\<rparr>)"
  by (simp add: get_connection_def)

lemma get_connection_frame:
  "store (snd (get_connection drv w)) = store w
   \<and> cache (snd (get_connection drv w)) = cache w
   \<and> session_state (snd (get_connection drv w)) = session_state w
   \<and> connect_calls (snd (get_connection drv w)) = Suc (connect_calls w)"
  by (simp add: get_connection_def Let_def split: sum.splits exn.splits)

lemma get_connection_Inl:
  "connect drv (connect_calls w) = Inl err \<Longrightarrow> fst (get_connection drv w) = Inl err"
  by (simp add: get_connection_def Let_def split: exn.splits)

lemma get_connection_cases:
  obtains (failed) err where "connect drv (connect_calls w) = Inl err"
      "fst (get_connection drv w) = Inl err"
  | (opened) conn where "connect drv (connect_calls w) = Inr conn"
      "fst (get_connection drv w) = Inr conn"
  by (cases "connect drv (connect_calls w)") (auto simp: get_connection_Inl get_connection_ok)

lemma expenses_submit_ok:
  assumes "connect drv (connect_calls w) = Inr conn" "execute drv conn e = None"
    "commit drv conn = None" "close drv conn = None" "st_success drv = None"
  shows "expenses_submit drv w e =
    (Inr [Success ''Expense added succesfully''],
     w\<lparr>connect_calls := Suc (connect_calls w), console := console w @ [ConnectionSuccessful],
       store := store w @ [e], cache := None, session_state := reset_form (session_state w)\<rparr>)"
  using assms by (simp add: expenses_submit_def get_connection_ok)

lemma load_data_ok:
  assumes "cache w = None" "connect drv (connect_calls w) = Inr conn" "read_sql drv conn = None"
  shows "load_data drv w =
    (Inr (map derive (store w)),
     w\<lparr>connect_calls := Suc (connect_calls w), console := console w @ [ConnectionSuccessful],
       cache := Some (map derive (store w))\<rparr>)"
  using assms by (simp add: load_data_def get_connection_ok Let_def)

text \<open>
  The three ways the submit block ends: at its end; with an exception raised before the
  commit returned; with an exception raised after it.
\<close>

lemma expenses_submit_cases:
  "(\<exists>out w'. expenses_submit drv w e = (Inr out, w') \<and> store w' = store w @ [e]
       \<and> cache w' = None \<and> session_state w' = reset_form (session_state w))
   \<or> (\<exists>err w'. expenses_submit drv w e = (Inl err, w') \<and> store w' = store w
       \<and> cache w' = cache w \<and> session_state w' = session_state w
       \<and> (connect drv (connect_calls w) = Inl err
            \<or> (\<exists>conn. connect drv (connect_calls w) = Inr conn
                 \<and> (execute drv conn e = Some err
                      \<or> execute drv conn e = None \<and> commit drv conn = Some err))))
   \<or> (\<exists>err w' conn. expenses_submit drv w e = (Inl err, w') \<and> store w' = store w @ [e]
       \<and> cache w' = cache w \<and> session_state w' = session_state w
       \<and> connect drv (connect_calls w) = Inr conn \<and> execute drv conn e = None
       \<and> commit drv conn = None
       \<and> (close drv conn = Some err \<or> close drv conn = None \<and> st_success drv = Some err))"
proof (cases rule: get_connection_cases [of drv w])
  case (failed err)
  then have f: "get_connection drv w = (Inl err, snd (get_connection drv w))"
    by (metis prod.collapse)
  have "expenses_submit drv w e = (Inl err, snd (get_connection drv w))"
    unfolding expenses_submit_def by (subst f) simp
  with failed(1) show ?thesis
    by (simp add: get_connection_frame)
next
  case (opened conn)
  then have g: "get_connection drv w = (Inr conn, snd (get_connection drv w))"
    by (metis prod.collapse)
  show ?thesis
  proof (cases "execute drv conn e")
    case (Some err)
    have "expenses_submit drv w e = (Inl err, snd (get_connection drv w))"
      unfolding expenses_submit_def by (subst g) (simp add: Some)
    with opened(1) Some show ?thesis
      by (simp add: get_connection_frame)
  next
    case None
    show ?thesis
    proof (cases "commit drv conn")
      case (Some err)
      have "expenses_submit drv w e = (Inl err, snd (get_connection drv w))"
        unfolding expenses_submit_def by (subst g) (simp add: Some None)
      with opened(1) None Some show ?thesis
        by (simp add: get_connection_frame)
    next
      case commit_ok: None
      show ?thesis
      proof (cases "close drv conn")
        case (Some err)
        have "expenses_submit drv w e =
            (Inl err, (snd (get_connection drv w))\<lparr>store := store (snd (get_connection drv w)) @ [e]\<rparr>)"
          unfolding expenses_submit_def by (subst g) (simp add: Some None commit_ok)
        with opened(1) None commit_ok Some show ?thesis
          by (simp add: get_connection_frame)
      next
        case close_ok: None
        show ?thesis
        proof (cases "st_success drv")
          case (Some err)
          have "expenses_submit drv w e =
              (Inl err, (snd (get_connection drv w))\<lparr>store := store (snd (get_connection drv w)) @ [e]\<rparr>)"
            unfolding expenses_submit_def by (subst g) (simp add: Some None commit_ok close_ok)
          with opened(1) None commit_ok close_ok Some show ?thesis
            by (simp add: get_connection_frame)
        next
          case shown: None
          have "\<exists>out w'. expenses_submit drv w e = (Inr out, w') \<and> store w' = store w @ [e]
              \<and> cache w' = None \<and> session_state w' = reset_form (session_state w)"
            unfolding expenses_submit_def
            by (subst g) (simp add: None commit_ok close_ok shown Let_def get_connection_frame)
          then show ?thesis by blast
        qed
      qed
    qed
  qed
qed

text \<open>
  What the displayed \<^verbatim>\<open>line_data\<close> is on every table: it does not depend on the selected
  years, it has one row per distinct (year, month) pair of the whole table, and the amount
  of a row is the library's sum over the rows of the whole table with that pair.
\<close>

lemma line_data_any_selection: "line_data fs t ys = line_data fs t ys'"
  by (simp add: line_data_def)

lemma length_line_data: "length (line_data fs t ys) = card ((\<lambda>r. (year r, month r)) ` set t)"
  by (simp add: line_data_def groupby_sum_def length_remdups_card_conv)

lemma line_data_sums:
  "(y, n, a) \<in> set (line_data fs t ys) \<Longrightarrow>
   \<exists>m. n = month_name m \<and> (\<exists>r\<in>set t. year r = y \<and> month r = m)
     \<and> a = group_sum fs (map amount (filter (\<lambda>r. year r = y \<and> month r = m) t))"
  by (auto simp: line_data_def groupby_sum_def)

section \<open>The claims\<close>

subsection \<open>Monthly trend\<close>

text \<open>
  Claim C1: the monthly trend has exactly one row per distinct (year, month) pair present
  after year filtering, each with the sum of the matching rows of the year-filtered table.

  The script computes a year-restricted value first (lines 124-126) and then overwrites it
  at line 133 with a value grouped from the whole table. On a table with one row of January
  2023 and one of January 2024, with only 2024 selected, the chart data has two rows, the
  one of 2023 included, while the year-filtered table has the single pair (2024, 1).
\<close>

theorem line_data_ignores_selected_year:
  "line_data fs [rent_2023, gas_2024] [2024] =
     [(2023, Some ''January'', group_sum fs [10]), (2024, Some ''January'', group_sum fs [20])]
   \<and> remdups (map (\<lambda>r. (year r, month r)) (filterByYears [rent_2023, gas_2024] [2024])) =
     [(2024, 1)]"
  by (simp add: line_data_def groupby_sum_def filterByYears_def rent_2023_def gas_2024_def
      month_name_def months_def less_eq_prod_def)

subsection \<open>Filters\<close>

text \<open>
  Claim C2: for a non-empty selection of years (of months) the filter returns exactly the
  rows whose year (month) is selected, and for the empty selection it returns its input.
  The month selection is a list of display names; a row's month is selected when its
  display name is in the list.
\<close>

theorem filter_by_years_months_exact:
  "(selected_year \<noteq> [] \<longrightarrow>
      filterByYears t selected_year = filter (\<lambda>r. year r \<in> set selected_year) t)
   \<and> (selected_month \<noteq> [] \<longrightarrow>
      filterByMonths t selected_month =
        filter (\<lambda>r. \<exists>name\<in>set selected_month. month_name (month r) = Some name) t)
   \<and> filterByYears t [] = t \<and> filterByMonths t [] = t"
  by (simp add: filterByYears_def filterByMonths_def month_numbers_iff)

theorem filter_by_years_months_exact_witness:
  "[2024] \<noteq> ([] :: int list) \<and> [''March''] \<noteq> ([] :: string list)
   \<and> filterByYears example_table [2024] = [gas_2024, derive electric_bill]
   \<and> filterByMonths example_table [''March''] = [derive electric_bill]
   \<and> filterByYears example_table [] = example_table
   \<and> filterByMonths example_table [] = example_table"
  using filter_by_years_months_exact [of "[2024]" example_table "[''March'']"]
  by (simp add: example_table_def rent_2023_def gas_2024_def electric_bill_def derive_def
      month_name_def months_def)

text \<open>
  Claim C3: with the sentinel \<^verbatim>\<open>"All"\<close> the category filter is the identity, and with any
  other category it returns exactly the rows of that category.
\<close>

theorem filterByCategory_All_identity:
  "filterByCategory t ''All'' = t
   \<and> (c \<noteq> ''All'' \<longrightarrow> filterByCategory t c = filter (\<lambda>r. category r = c) t)"
  by (simp add: filterByCategory_def)

theorem filterByCategory_All_identity_witness:
  "filterByCategory example_table ''All'' = example_table
   \<and> ''Bills'' \<noteq> ''All''
   \<and> filterByCategory example_table ''Bills'' = [gas_2024, derive electric_bill]"
  using filterByCategory_All_identity [of example_table "''Bills''"]
  by (simp add: example_table_def rent_2023_def gas_2024_def electric_bill_def derive_def)

subsection \<open>Insert and reload\<close>

text \<open>
  Claim C5, as amended: from any state, when the submission runs to its end and the reload
  succeeds, inserting the record of 5 March 2024, 42.50, Bills, electric and reloading yields exactly
  one more row with those four fields than the store held before, so exactly one when the
  store held none; every such row has year 2024 and month 3.
\<close>

theorem roundtrip_one_more_matching_row:
  assumes "connect drv (connect_calls w) = Inr c1" and "execute drv c1 electric_bill = None"
    and "commit drv c1 = None" and "close drv c1 = None" and "st_success drv = None"
    and "connect drv (Suc (connect_calls w)) = Inr c2" and "read_sql drv c2 = None"
  shows "\<exists>out w1 w2 t.
    expenses_submit drv w electric_bill = (Inr out, w1) \<and> load_data drv w1 = (Inr t, w2)
    \<and> length (matching electric_bill t) = Suc (length (filter (\<lambda>e. e = electric_bill) (store w)))
    \<and> (electric_bill \<notin> set (store w) \<longrightarrow> length (matching electric_bill t) = 1)
    \<and> (\<forall>r\<in>set (matching electric_bill t). year r = 2024 \<and> month r = 3)"
proof -
  define w1 where "w1 = snd (expenses_submit drv w electric_bill)"
  have sub: "expenses_submit drv w electric_bill = (Inr [Success ''Expense added succesfully''], w1)"
    and w1: "cache w1 = None" "store w1 = store w @ [electric_bill]"
      "connect_calls w1 = Suc (connect_calls w)"
    unfolding w1_def by (simp_all add: expenses_submit_ok [OF assms(1-5)])
  define t where "t = map derive (store w1)"
  have "connect drv (connect_calls w1) = Inr c2" using assms(6) w1(3) by simp
  from load_data_ok [OF w1(1) this assms(7)]
  have ld: "load_data drv w1 = (Inr t, snd (load_data drv w1))"
    by (simp add: t_def)
  have m: "matching electric_bill t =
      map derive (filter (\<lambda>e. e = electric_bill) (store w)) @ [derive electric_bill]"
    unfolding t_def w1(2) matching_derive by simp
  have len: "length (matching electric_bill t) =
      Suc (length (filter (\<lambda>e. e = electric_bill) (store w)))"
    by (simp add: m)
  have none: "electric_bill \<notin> set (store w) \<longrightarrow> length (matching electric_bill t) = 1"
    by (auto simp: len filter_empty_conv)
  have d: "year (derive electric_bill) = 2024" "month (derive electric_bill) = 3"
    by (simp_all add: derive_def electric_bill_def)
  have ym: "\<forall>r\<in>set (matching electric_bill t). year r = 2024 \<and> month r = 3"
    unfolding m using d by auto
  from sub ld len none ym show ?thesis by blast
qed

theorem roundtrip_one_more_matching_row_witness:
  "connect ok_driver (connect_calls empty_world) = Inr 0
   \<and> execute ok_driver 0 electric_bill = None \<and> commit ok_driver 0 = None
   \<and> close ok_driver 0 = None \<and> st_success ok_driver = None
   \<and> connect ok_driver (Suc (connect_calls empty_world)) = Inr 1
   \<and> read_sql ok_driver 1 = None
   \<and> electric_bill \<notin> set (store empty_world)
   \<and> (\<exists>out w1 w2 t.
        expenses_submit ok_driver empty_world electric_bill = (Inr out, w1)
        \<and> load_data ok_driver w1 = (Inr t, w2)
        \<and> length (matching electric_bill t) = 1
        \<and> (\<forall>r\<in>set (matching electric_bill t). year r = 2024 \<and> month r = 3))"
proof -
  have h: "connect ok_driver (connect_calls empty_world) = Inr 0"
    "execute ok_driver 0 electric_bill = None" "commit ok_driver 0 = None"
    "close ok_driver 0 = None" "st_success ok_driver = None"
    "connect ok_driver (Suc (connect_calls empty_world)) = Inr 1"
    "read_sql ok_driver 1 = None"
    by (simp_all add: ok_driver_def empty_world_def)
  have e: "electric_bill \<notin> set (store empty_world)"
    by (simp add: empty_world_def)
  from roundtrip_one_more_matching_row [OF h] e h show ?thesis
    by auto
qed

text \<open>
  The claim as stated, from any store state, fails on a store that already holds an equal
  record: nothing makes records unique, and the reload shows two matching rows.
\<close>

theorem roundtrip_duplicate_counterexample:
  "fst (load_data ok_driver (snd (expenses_submit ok_driver dup_world electric_bill))) =
     Inr [derive electric_bill, derive electric_bill]
   \<and> length (matching electric_bill [derive electric_bill, derive electric_bill]) = 2"
  by (simp add: load_data_def expenses_submit_def get_connection_def ok_driver_def dup_world_def
      matching_def columns_derive Let_def)

subsection \<open>Empty table\<close>

text \<open>
  Claim C6: on an empty table the analysis view is the heading and the no-data warning and
  nothing else, whatever is selected: no metric, no chart, no listing. Loading an empty
  store, or reusing a cached empty table, returns the empty table and not an error.
\<close>

theorem empty_table_shows_no_data:
  "analysis_tab fs [] ys ms c =
     [Markdown ''Analysis'', Warning ''No data available. Please add expenses first.'']
   \<and> (cache w = None \<and> store w = [] \<and> connect drv (connect_calls w) = Inr conn
        \<and> read_sql drv conn = None \<longrightarrow> fst (load_data drv w) = Inr [])
   \<and> (cache w = Some [] \<longrightarrow> fst (load_data drv w) = Inr [])"
  by (simp add: analysis_tab_def load_data_def get_connection_ok)

theorem empty_table_shows_no_data_witness:
  "cache fresh_world = None \<and> store fresh_world = []
   \<and> connect ok_driver (connect_calls fresh_world) = Inr 0 \<and> read_sql ok_driver 0 = None
   \<and> fst (load_data ok_driver fresh_world) = Inr []
   \<and> (\<forall>fs. analysis_tab fs [] [2024] [''March''] ''All'' =
       [Markdown ''Analysis'', Warning ''No data available. Please add expenses first.''])"
  using empty_table_shows_no_data [of _ "[2024]" "[''March'']" "''All''" fresh_world ok_driver 0]
  by (simp add: fresh_world_def ok_driver_def)

subsection \<open>Connection\<close>

text \<open>
  Claim C7: when the driver refuses the connection, \<^verbatim>\<open>get_connection\<close> prints the failure
  and raises the same error, changing nothing else; when the driver opens a connection it
  returns that connection; in both cases it has asked the driver exactly once.
\<close>

theorem get_connection_reraises_once:
  "(connect drv (connect_calls w) = Inl (PyodbcError msg) \<longrightarrow>
      get_connection drv w =
        (Inl (PyodbcError msg),
         w\<lparr>connect_calls := Suc (connect_calls w),
           console := console w @ [ConnectionFailed (PyodbcError msg)]\<rparr>))
   \<and> (connect drv (connect_calls w) = Inr conn \<longrightarrow> fst (get_connection drv w) = Inr conn)
   \<and> connect_calls (snd (get_connection drv w)) = Suc (connect_calls w)"
  by (simp add: get_connection_frame) (simp add: get_connection_def)

theorem get_connection_reraises_once_witness:
  "connect unreachable_driver (connect_calls fresh_world) = Inl (PyodbcError ''08001'')
   \<and> connect unreachable_driver (Suc (connect_calls fresh_world)) = Inr 1
   \<and> get_connection unreachable_driver fresh_world =
       (Inl (PyodbcError ''08001''),
        fresh_world\<lparr>connect_calls := 1, console := [ConnectionFailed (PyodbcError ''08001'')]\<rparr>)
   \<and> connect ok_driver (connect_calls fresh_world) = Inr 0
   \<and> fst (get_connection ok_driver fresh_world) = Inr 0"
  using get_connection_reraises_once [of unreachable_driver fresh_world "''08001''" 0]
    get_connection_reraises_once [of ok_driver fresh_world "''08001''" 0]
  by (simp add: unreachable_driver_def ok_driver_def fresh_world_def)

subsection \<open>Submitting the form\<close>

text \<open>
  Claim C8, as amended: for every submitted record, either the block runs to its end, the
  record is the one new row of the store and the cache is cleared; or an error reaches the
  caller and the cache is as it was. In the second case no row is written when connecting,
  the insert statement or the commit failed, and the committed row stays written when the
  failure came after the commit, in closing the connection or in showing the success
  message.
\<close>

theorem insert_commits_or_raises:
  "(\<exists>out w'. expenses_submit drv w e = (Inr out, w') \<and> store w' = store w @ [e]
       \<and> cache w' = None)
   \<or> (\<exists>err w'. expenses_submit drv w e = (Inl err, w') \<and> store w' = store w
       \<and> cache w' = cache w
       \<and> (connect drv (connect_calls w) = Inl err
            \<or> (\<exists>conn. connect drv (connect_calls w) = Inr conn
                 \<and> (execute drv conn e = Some err
                      \<or> execute drv conn e = None \<and> commit drv conn = Some err))))
   \<or> (\<exists>err w' conn. expenses_submit drv w e = (Inl err, w') \<and> store w' = store w @ [e]
       \<and> cache w' = cache w
       \<and> connect drv (connect_calls w) = Inr conn \<and> execute drv conn e = None
       \<and> commit drv conn = None
       \<and> (close drv conn = Some err \<or> close drv conn = None \<and> st_success drv = Some err))"
  using expenses_submit_cases [of drv w e] by blast

theorem insert_commits_or_raises_witness:
  "(\<exists>out w'. expenses_submit ok_driver dup_world electric_bill = (Inr out, w')
       \<and> store w' = [electric_bill, electric_bill] \<and> cache w' = None)
   \<and> (\<exists>err w'. expenses_submit failing_commit_driver dup_world electric_bill = (Inl err, w')
       \<and> store w' = [electric_bill] \<and> cache w' = Some [derive electric_bill])
   \<and> (\<exists>err w'. expenses_submit failing_close_driver dup_world electric_bill = (Inl err, w')
       \<and> store w' = [electric_bill, electric_bill] \<and> cache w' = Some [derive electric_bill])"
  using insert_commits_or_raises [of ok_driver dup_world electric_bill]
    insert_commits_or_raises [of failing_commit_driver dup_world electric_bill]
    insert_commits_or_raises [of failing_close_driver dup_world electric_bill]
  by (simp add: expenses_submit_def get_connection_def ok_driver_def failing_commit_driver_def
      failing_close_driver_def dup_world_def Let_def)

text \<open>
  The claim as stated fails when closing the connection raises after the commit: the error
  reaches the caller, the row is written, and the cache still holds the table without it.
\<close>

theorem insert_close_failure_counterexample:
  "fst (expenses_submit failing_close_driver dup_world electric_bill) =
     Inl (PyodbcError ''08S01'')
   \<and> store (snd (expenses_submit failing_close_driver dup_world electric_bill)) =
     [electric_bill, electric_bill]
   \<and> cache (snd (expenses_submit failing_close_driver dup_world electric_bill)) =
     Some [derive electric_bill]"
  by (simp add: expenses_submit_def get_connection_def failing_close_driver_def dup_world_def
      Let_def)

text \<open>
  Claim C9: a submission that raises leaves the cached table and the session state as they
  were, and a refused connection, a failed insert statement and a failed commit each make
  the submission raise that error.
\<close>

theorem failed_submit_keeps_cache_and_form:
  "(expenses_submit drv w e = (Inl err, w') \<longrightarrow>
      cache w' = cache w \<and> session_state w' = session_state w)
   \<and> (connect drv (connect_calls w) = Inl err
        \<or> connect drv (connect_calls w) = Inr conn
           \<and> (execute drv conn e = Some err
               \<or> execute drv conn e = None \<and> commit drv conn = Some err)
      \<longrightarrow> fst (expenses_submit drv w e) = Inl err
          \<and> cache (snd (expenses_submit drv w e)) = cache w
          \<and> session_state (snd (expenses_submit drv w e)) = session_state w)"
proof -
  have a: "expenses_submit drv w e = (Inl err, w') \<longrightarrow>
      cache w' = cache w \<and> session_state w' = session_state w"
    using expenses_submit_cases [of drv w e] by auto
  have b: "fst (expenses_submit drv w e) = Inl err"
    if "connect drv (connect_calls w) = Inl err
        \<or> connect drv (connect_calls w) = Inr conn
           \<and> (execute drv conn e = Some err
               \<or> execute drv conn e = None \<and> commit drv conn = Some err)"
    using that
    by (auto simp: expenses_submit_def get_connection_ok split: prod.splits
        dest: get_connection_Inl)
  have c: "cache (snd (expenses_submit drv w e)) = cache w
      \<and> session_state (snd (expenses_submit drv w e)) = session_state w"
    if "fst (expenses_submit drv w e) = Inl err"
    using that expenses_submit_cases [of drv w e] by auto
  from a b c show ?thesis by blast
qed

theorem failed_submit_keeps_cache_and_form_witness:
  "connect unreachable_driver (connect_calls dup_world) = Inl (PyodbcError ''08001'')
   \<and> fst (expenses_submit unreachable_driver dup_world electric_bill) = Inl (PyodbcError ''08001'')
   \<and> cache (snd (expenses_submit unreachable_driver dup_world electric_bill)) =
       Some [derive electric_bill]
   \<and> session_state (snd (expenses_submit unreachable_driver dup_world electric_bill)) = filled_form
   \<and> commit failing_commit_driver 0 = Some (PyodbcError ''40001'')
   \<and> fst (expenses_submit failing_commit_driver dup_world electric_bill) = Inl (PyodbcError ''40001'')
   \<and> session_state (snd (expenses_submit failing_commit_driver dup_world electric_bill)) = filled_form"
  using failed_submit_keeps_cache_and_form
      [of unreachable_driver dup_world electric_bill "PyodbcError ''08001''" _ 0]
    failed_submit_keeps_cache_and_form
      [of failing_commit_driver dup_world electric_bill "PyodbcError ''40001''" _ 0]
  by (simp add: unreachable_driver_def failing_commit_driver_def dup_world_def)

subsection \<open>The filter pipeline\<close>

text \<open>
  Claim C10: each filter returns a subsequence of its input, so the surviving rows are rows
  of the input, unmodified and in their order; the three assignments leave \<^verbatim>\<open>df\<close> as it
  was; and \<^verbatim>\<open>filtered_df\<close> ends as the rows of \<^verbatim>\<open>df\<close>, in table order, that satisfy every
  filter that is switched on.
\<close>

theorem filters_subseq_conjunction:
  "subseq (filterByYears t ys) t \<and> subseq (filterByMonths t ms) t
   \<and> subseq (filterByCategory t c) t
   \<and> df (apply_filters ys ms c v) = df v
   \<and> subseq (filtered_df (apply_filters ys ms c v)) (df v)
   \<and> filtered_df (apply_filters ys ms c v) =
       filter (\<lambda>r. (ys = [] \<or> year r \<in> set ys)
                 \<and> (ms = [] \<or> (\<exists>name\<in>set ms. month_name (month r) = Some name))
                 \<and> (c = ''All'' \<or> category r = c)) (df v)"
proof -
  have y: "filterByYears t ys = filter (\<lambda>r. ys = [] \<or> year r \<in> set ys) t" for t
    by (simp add: filterByYears_def)
  have m: "filterByMonths t ms =
      filter (\<lambda>r. ms = [] \<or> (\<exists>name\<in>set ms. month_name (month r) = Some name)) t" for t
    by (simp add: filterByMonths_def month_numbers_iff)
  have c: "filterByCategory t c = filter (\<lambda>r. c = ''All'' \<or> category r = c) t" for t
    by (simp add: filterByCategory_def)
  have pipeline: "filtered_df (apply_filters ys ms c v) =
       filter (\<lambda>r. (ys = [] \<or> year r \<in> set ys)
                 \<and> (ms = [] \<or> (\<exists>name\<in>set ms. month_name (month r) = Some name))
                 \<and> (c = ''All'' \<or> category r = c)) (df v)"
    unfolding apply_filters_filtered_df y m c by (simp add: conj_commute conj_left_commute)
  have frame: "df (apply_filters ys ms c v) = df v"
    by (simp add: apply_filters_def)
  show ?thesis
    unfolding pipeline frame by (simp add: y m c)
qed

theorem filters_subseq_conjunction_witness:
  "df (apply_filters [2024] [''March''] ''Bills'' \<lparr>df = example_table, filtered_df = []\<rparr>) =
     example_table
   \<and> filtered_df (apply_filters [2024] [''March''] ''Bills''
       \<lparr>df = example_table, filtered_df = []\<rparr>) = [derive electric_bill]
   \<and> subseq [derive electric_bill] example_table
   \<and> subseq (filterByYears example_table [2024]) example_table"
  using filters_subseq_conjunction [of example_table "[2024]" "[''March'']" "''Bills''"
      "\<lparr>df = example_table, filtered_df = []\<rparr>"]
  by (simp add: apply_filters_def filterByYears_def filterByMonths_def filterByCategory_def
      month_numbers_def months_def month_name_def example_table_def rent_2023_def gas_2024_def
      electric_bill_def derive_def)

end
